theory Spec2Isabelle
  imports Main
begin

section \<open>pysqueezelite: a shallow embedding of \<open>src/pysqueezelite.py\<close>\<close>

text \<open>
  The class \<open>PySqueezelite\<close> wraps three external systems: the file system and the
  process table (\<open>os.path.isfile\<close>, \<open>subprocess\<close>), SSDP discovery (\<open>ssdp.discover\<close>) and
  the telnet session of the media server (\<open>pylms\<close>). None of them is part of the source
  file, so what they answer is a parameter of the model (the record \<open>env\<close>). Every
  method of the class is a function from the instance to a result (an exception or a
  value), the instance as the method leaves it (also when it raises: Python keeps the
  assignments made before the \<open>raise\<close>), and the list of external calls it made, in order.
\<close>

subsection \<open>Python values\<close>

text \<open>A parameter that is a string or \<open>None\<close>.\<close>

type_synonym pystr = "string option"

text \<open>Python's truth value of such a parameter: \<open>None\<close> and \<open>""\<close> are false.\<close>

fun truthy :: "pystr \<Rightarrow> bool" where
  "truthy None = False"
| "truthy (Some v) = (v \<noteq> [])"

datatype pyval = VNone | VStr string | VInt int

datatype error =
    PySqueezeliteError string
  | CalledProcessError int "string list"
  | AttributeError string
  | ExternalError string

text \<open>
  An object handed back by \<open>pylms\<close> (a \<open>Player\<close>, or \<open>None\<close> when the server knows no player
  with the given reference). \<open>call_attr obj name\<close> is \<open>None\<close> when \<open>hasattr(obj, name)\<close> is
  false and otherwise the outcome of \<open>getattr(obj, name)()\<close>.
\<close>

record pyobject =
  obj_truthy :: bool
  call_attr :: "string \<Rightarrow> (error + pyval) option"

text \<open>One SSDP response, as \<open>__discover_server\<close> reads it (\<open>x.ip\<close>, \<open>x.port\<close>).\<close>

record device =
  ip :: string
  port :: int

text \<open>The \<open>pylms\<close> \<open>Server\<close> object: \<open>Server(hostname=hostname, port=port)\<close>.\<close>

record lms_server =
  sv_hostname :: pystr
  sv_port :: int

subsection \<open>The outside world\<close>

datatype event =
    IsFile string
  | Discover string
  | ServerConnect pystr int
  | GetPlayer pystr
  | Call "string list"
  | CheckOutput "string list"
  | PlayerCall string

text \<open>
  \<open>discover\<close> answers a list whose entries may be false values (\<open>None\<close> here), which the
  source filters out. \<open>run\<close> executes a command line: \<open>Inl\<close> when it cannot be
  executed at all (\<open>OSError\<close>), otherwise its exit status and its output.
\<close>

record env =
  isfile :: "string \<Rightarrow> bool"
  discover :: "string \<Rightarrow> error + device option list"
  server_connect :: "pystr \<Rightarrow> int \<Rightarrow> error + unit"
  get_player :: "pystr \<Rightarrow> int \<Rightarrow> pystr \<Rightarrow> error + pyobject"
  run :: "string list \<Rightarrow> error + (int \<times> string)"

subsection \<open>The instance\<close>

text \<open>
  The attributes \<open>devices\<close>, \<open>matches\<close>, \<open>sc\<close> and \<open>player\<close> are not set by \<open>__init__\<close>:
  \<open>None\<close> in the record means that the attribute does not exist yet.
\<close>

record pysqueezelite =
  path :: string
  playername :: pystr
  mac :: pystr
  server :: pystr
  args :: pystr
  lmsport :: int
  telnetport :: int
  devices :: "device list option"
  matches :: "string list option"
  sc :: "lms_server option"
  player :: "pyobject option"

subsection \<open>Methods as actions on the instance\<close>

type_synonym 'a action = "pysqueezelite \<Rightarrow> (error + 'a) \<times> pysqueezelite \<times> event list"

definition ret :: "'a \<Rightarrow> 'a action" where
  "ret x s = (Inr x, s, [])"

definition raise :: "error \<Rightarrow> 'a action" where
  "raise e s = (Inl e, s, [])"

definition get :: "(pysqueezelite \<Rightarrow> 'a) \<Rightarrow> 'a action" where
  "get f s = (Inr (f s), s, [])"

definition modify :: "(pysqueezelite \<Rightarrow> pysqueezelite) \<Rightarrow> unit action" where
  "modify f s = (Inr (), f s, [])"

text \<open>A call that leaves the program: it is recorded, and its outcome is the world's.\<close>

definition extern :: "event \<Rightarrow> error + 'a \<Rightarrow> 'a action" where
  "extern ev r s = (r, s, [ev])"

text \<open>Sequencing: an exception of the first action skips the second.\<close>

definition bind_a :: "'a action \<Rightarrow> ('a \<Rightarrow> 'b action) \<Rightarrow> 'b action" where
  "bind_a m f s =
     (case m s of
        (Inl e, s1, t1) \<Rightarrow> (Inl e, s1, t1)
      | (Inr x, s1, t1) \<Rightarrow> (case f x s1 of (r, s2, t2) \<Rightarrow> (r, s2, t1 @ t2)))"

definition result_of :: "(error + 'a) \<times> pysqueezelite \<times> event list \<Rightarrow> error + 'a" where
  "result_of r = fst r"

definition state_of :: "(error + 'a) \<times> pysqueezelite \<times> event list \<Rightarrow> pysqueezelite" where
  "state_of r = fst (snd r)"

definition trace_of :: "(error + 'a) \<times> pysqueezelite \<times> event list \<Rightarrow> event list" where
  "trace_of r = snd (snd r)"

subsection \<open>Formatting\<close>

text \<open>\<open>"{}".format(n)\<close> for an integer: its decimal digits.\<close>

fun str_nat :: "nat \<Rightarrow> string" where
  "str_nat n =
     (if n < 10 then [''0123456789'' ! n]
      else str_nat (n div 10) @ [''0123456789'' ! (n mod 10)])"

definition str_int :: "int \<Rightarrow> string" where
  "str_int i = (if i < 0 then CHR ''-'' # str_nat (nat (- i)) else str_nat (nat i))"

subsection \<open>\<open>__init__\<close>\<close>

definition init ::
  "env \<Rightarrow> string \<Rightarrow> pystr \<Rightarrow> pystr \<Rightarrow> pystr \<Rightarrow> pystr \<Rightarrow> int \<Rightarrow> int
     \<Rightarrow> (error + pysqueezelite) \<times> event list" where
  "init env p plname m srv a lp tp =
     (let self = \<lparr>path = p, playername = plname, mac = m, server = srv, args = a,
                  lmsport = lp, telnetport = tp,
                  devices = None, matches = None, sc = None, player = None\<rparr>
      in if \<not> isfile env (path self)
         then (Inl (PySqueezeliteError (''Can't find squeezelite at '' @ path self)),
               [IsFile (path self)])
         else (Inr self, [IsFile (path self)]))"

subsection \<open>\<open>__discover_server\<close>\<close>

definition discover_server :: "env \<Rightarrow> string action" where
  "discover_server env =
     bind_a (extern (Discover ''ssdp:all'') (discover env ''ssdp:all'')) (\<lambda>rs.
     let devs = List.map_filter (\<lambda>x. x) rs in
     bind_a (modify (\<lambda>s. s\<lparr>devices := Some devs\<rparr>)) (\<lambda>_.
     bind_a (get lmsport) (\<lambda>p.
     let ms = map ip (filter (\<lambda>x. port x = p) devs) in
     bind_a (modify (\<lambda>s. s\<lparr>matches := Some ms\<rparr>)) (\<lambda>_.
     if length ms > 1 then
       raise (PySqueezeliteError (''Multiple servers found on port '' @ str_int p
                @ ''. Need to set server ip address when calling PySqueezelite.''))
     else if length ms = 0 then
       raise (PySqueezeliteError (''No servers found on port '' @ str_int p
                @ ''. Please check LMS is running and the correct port has been set.''))
     else ret (ms ! 0)))))"

subsection \<open>\<open>connect\<close>\<close>

definition connect :: "env \<Rightarrow> pystr \<Rightarrow> int \<Rightarrow> unit action" where
  "connect env hostname prt =
     bind_a (modify (\<lambda>s. s\<lparr>sc := Some \<lparr>sv_hostname = hostname, sv_port = prt\<rparr>\<rparr>)) (\<lambda>_.
     bind_a (extern (ServerConnect hostname prt) (server_connect env hostname prt)) (\<lambda>_.
     bind_a (get mac) (\<lambda>m.
     bind_a (extern (GetPlayer m) (get_player env hostname prt m)) (\<lambda>p.
     modify (\<lambda>s. s\<lparr>player := Some p\<rparr>)))))"

subsection \<open>\<open>start\<close>\<close>

text \<open>\<open>if v: command += [flag, v]\<close>\<close>

fun flag_value :: "string \<Rightarrow> pystr \<Rightarrow> string list" where
  "flag_value flag None = []"
| "flag_value flag (Some v) = (if v \<noteq> [] then [flag, v] else [])"

text \<open>\<open>if self.args: command += [self.args]\<close>\<close>

fun other_args :: "pystr \<Rightarrow> string list" where
  "other_args None = []"
| "other_args (Some v) = (if v \<noteq> [] then [v] else [])"

definition command_of :: "pysqueezelite \<Rightarrow> string list" where
  "command_of s =
     [path s, ''-z'']
     @ flag_value ''-n'' (playername s)
     @ flag_value ''-m'' (mac s)
     @ flag_value ''-s'' (server s)
     @ other_args (args s)"

text \<open>\<open>subprocess.call\<close>: the exit status, whatever it is.\<close>

definition subprocess_call :: "env \<Rightarrow> string list \<Rightarrow> int action" where
  "subprocess_call env cmd =
     bind_a (extern (Call cmd) (run env cmd)) (\<lambda>(rc, out). ret rc)"

definition start :: "env \<Rightarrow> pyval action" where
  "start env =
     bind_a (get server) (\<lambda>srv.
     bind_a (if \<not> truthy srv
             then bind_a (discover_server env) (\<lambda>a. modify (\<lambda>s. s\<lparr>server := Some a\<rparr>))
             else ret ()) (\<lambda>_.
     bind_a (get server) (\<lambda>srv1.
     bind_a (get telnetport) (\<lambda>tp.
     bind_a (connect env srv1 tp) (\<lambda>_.
     bind_a (get command_of) (\<lambda>command.
     bind_a (subprocess_call env command) (\<lambda>_.
     ret VNone)))))))"

subsection \<open>\<open>kill\<close>\<close>

text \<open>\<open>str.strip()\<close> removes white space at both ends.\<close>

definition is_space :: "char \<Rightarrow> bool" where
  "is_space c = (c \<in> set [CHR '' '', CHR 0x09, CHR 0x0A, CHR 0x0B, CHR 0x0C, CHR 0x0D])"

definition strip :: "string \<Rightarrow> string" where
  "strip xs = rev (dropWhile is_space (rev (dropWhile is_space xs)))"

text \<open>\<open>str.split(" ")\<close>: every single space separates, so the pieces may be empty.\<close>

fun split_sp :: "string \<Rightarrow> string list" where
  "split_sp [] = [[]]"
| "split_sp (c # cs) =
     (if c = CHR '' '' then [] # split_sp cs
      else (case split_sp cs of
              w # ws \<Rightarrow> (c # w) # ws
            | [] \<Rightarrow> [[c]]))"

text \<open>\<open>subprocess.check_output\<close>: a non-zero exit status is \<open>CalledProcessError\<close>.\<close>

definition check_output :: "env \<Rightarrow> string list \<Rightarrow> string action" where
  "check_output env cmd =
     bind_a (extern (CheckOutput cmd) (run env cmd)) (\<lambda>(rc, out).
     if rc \<noteq> 0 then raise (CalledProcessError rc cmd) else ret out)"

fun kill_each :: "env \<Rightarrow> string list \<Rightarrow> pyval action" where
  "kill_each env [] = ret VNone"
| "kill_each env (pid # pids) =
     bind_a (subprocess_call env [''kill'', ''-9'', pid]) (\<lambda>_. kill_each env pids)"

definition kill :: "env \<Rightarrow> pyval action" where
  "kill env =
     bind_a (get path) (\<lambda>p.
     bind_a (check_output env [''pidof'', p]) (\<lambda>pids.
     kill_each env (split_sp (strip pids))))"

subsection \<open>Queries and commands\<close>

text \<open>Reading \<open>self.player\<close>: an \<open>AttributeError\<close> while \<open>connect\<close> has not set it.\<close>

definition self_player :: "pyobject action" where
  "self_player s =
     (case player s of
        None \<Rightarrow> (Inl (AttributeError ''player''), s, [])
      | Some p \<Rightarrow> (Inr p, s, []))"

text \<open>
  \<open>if not self.player: self.connect\<close> evaluates the bound method and drops it; nothing
  is called, so both branches of the test continue alike.
\<close>

definition get_player_info :: "string \<Rightarrow> pyval action" where
  "get_player_info info =
     bind_a self_player (\<lambda>p.
     bind_a (if \<not> obj_truthy p then ret () else ret ()) (\<lambda>_.
     bind_a self_player (\<lambda>p1.
     case call_attr p1 info of
       Some r \<Rightarrow> extern (PlayerCall info) r
     | None \<Rightarrow> ret VNone)))"

text \<open>\<open>self.player.m()\<close> for a command \<open>m\<close>; the method's value is dropped.\<close>

definition player_command :: "string \<Rightarrow> pyval action" where
  "player_command m =
     bind_a self_player (\<lambda>p.
     case call_attr p m of
       None \<Rightarrow> raise (AttributeError m)
     | Some r \<Rightarrow> bind_a (extern (PlayerCall m) r) (\<lambda>_. ret VNone))"

definition play_pause :: "pyval action" where
  "play_pause = player_command ''toggle''"

definition stop :: "pyval action" where
  "stop = player_command ''stop''"

definition next_track :: "pyval action" where
  "next_track = player_command ''next''"

definition prev_track :: "pyval action" where
  "prev_track = player_command ''prev''"

definition track_title :: "pyval action" where
  "track_title = get_player_info ''get_track_title''"

definition track_artist :: "pyval action" where
  "track_artist = get_player_info ''get_track_artist''"

definition track_album :: "pyval action" where
  "track_album = get_player_info ''get_track_album''"

definition track_duration :: "pyval action" where
  "track_duration = get_player_info ''get_track_duration''"

definition track_time :: "pyval action" where
  "track_time = get_player_info ''get_time_elapsed''"

subsection \<open>The operations of an instance\<close>

text \<open>
  Every method a caller can invoke, with its arguments, and \<open>__discover_server\<close>, which
  \<open>start\<close> invokes. \<open>exec\<close> runs one of them.
\<close>

datatype operation =
    Start
  | Kill
  | Connect pystr int
  | DiscoverServer
  | GetPlayerInfo string
  | PlayPause
  | Stop
  | NextTrack
  | PrevTrack
  | TrackTitle
  | TrackArtist
  | TrackAlbum
  | TrackDuration
  | TrackTime

fun exec :: "env \<Rightarrow> operation \<Rightarrow> pyval action" where
  "exec env Start = start env"
| "exec env Kill = kill env"
| "exec env (Connect h p) = bind_a (connect env h p) (\<lambda>_. ret VNone)"
| "exec env DiscoverServer = bind_a (discover_server env) (\<lambda>a. ret (VStr a))"
| "exec env (GetPlayerInfo info) = get_player_info info"
| "exec env PlayPause = play_pause"
| "exec env Stop = stop"
| "exec env NextTrack = next_track"
| "exec env PrevTrack = prev_track"
| "exec env TrackTitle = track_title"
| "exec env TrackArtist = track_artist"
| "exec env TrackAlbum = track_album"
| "exec env TrackDuration = track_duration"
| "exec env TrackTime = track_time"

subsection \<open>Observations\<close>

text \<open>
  The configuration of an instance: the seven attributes \<open>__init__\<close> sets from its
  parameters ("relevant constants for this player").
\<close>

definition config_of ::
  "pysqueezelite \<Rightarrow> string \<times> pystr \<times> pystr \<times> pystr \<times> pystr \<times> int \<times> int" where
  "config_of s = (path s, playername s, mac s, server s, args s, lmsport s, telnetport s)"

text \<open>How many times a trace calls \<open>discover\<close>.\<close>

fun is_discover :: "event \<Rightarrow> bool" where
  "is_discover (Discover q) = True"
| "is_discover _ = False"

definition discover_calls :: "event list \<Rightarrow> nat" where
  "discover_calls t = length (filter is_discover t)"

subsection \<open>Example data\<close>

text \<open>A world and an instance on which the theorems below are evaluated.\<close>

definition example_player :: pyobject where
  "example_player =
     \<lparr>obj_truthy = True,
      call_attr = (\<lambda>n. if n = ''get_track_title'' then Some (Inr (VStr ''Song''))
                        else if n = ''toggle'' then Some (Inr VNone)
                        else None)\<rparr>"

text \<open>
  In \<open>example_env rs\<close> the only file is the default binary, discovery answers \<open>rs\<close>,
  the server accepts every connection, and \<open>pidof\<close> finds no process (exit status 1).
\<close>

definition example_env :: "device option list \<Rightarrow> env" where
  "example_env rs =
     \<lparr>isfile = (\<lambda>p. p = ''/usr/bin/squeezelite''),
      discover = (\<lambda>q. Inr rs),
      server_connect = (\<lambda>h p. Inr ()),
      get_player = (\<lambda>h p m. Inr example_player),
      run = (\<lambda>cmd. if cmd = [''pidof'', ''/usr/bin/squeezelite''] then Inr (1, [])
                    else Inr (0, []))\<rparr>"

definition kitchen :: pysqueezelite where
  "kitchen =
     \<lparr>path = ''/usr/bin/squeezelite'', playername = Some ''Kitchen'',
      mac = Some ''AA:BB:CC:DD:EE:FF'', server = Some ''10.0.0.5'',
      args = Some ''--foo bar'', lmsport = 9000, telnetport = 9090,
      devices = None, matches = None, sc = None, player = None\<rparr>"

definition lms_a :: device where
  "lms_a = \<lparr>ip = ''192.168.1.50'', port = 9000\<rparr>"

definition lms_b :: device where
  "lms_b = \<lparr>ip = ''192.168.1.51'', port = 9000\<rparr>"

definition tv :: device where
  "tv = \<lparr>ip = ''192.168.1.60'', port = 8080\<rparr>"

subsection \<open>A proof device\<close>

text \<open>
  The two comprehensions of \<open>__discover_server\<close> keep a response when it is a true value
  and its port is the wanted one; \<open>entry_matches\<close> is that test on one response.
\<close>

definition entry_matches :: "int \<Rightarrow> device option \<Rightarrow> bool" where
  "entry_matches p x = (case x of None \<Rightarrow> False | Some d \<Rightarrow> port d = p)"

section \<open>Properties\<close>

lemmas action_defs = ret_def raise_def get_def modify_def extern_def bind_a_def
  result_of_def state_of_def trace_of_def

subsection \<open>Discovery\<close>

text \<open>What \<open>__discover_server\<close> does with the responses \<open>rs\<close> of \<open>discover\<close>, in one step.\<close>

lemma discover_server_unfold:
  "discover env ''ssdp:all'' = Inr rs \<Longrightarrow>
   discover_server env s =
     (let devs = List.map_filter (\<lambda>x. x) rs;
          ms = map ip (filter (\<lambda>x. port x = lmsport s) devs);
          s2 = s\<lparr>devices := Some devs, matches := Some ms\<rparr>
      in (if length ms > 1 then
            Inl (PySqueezeliteError (''Multiple servers found on port '' @ str_int (lmsport s)
                @ ''. Need to set server ip address when calling PySqueezelite.''))
          else if length ms = 0 then
            Inl (PySqueezeliteError (''No servers found on port '' @ str_int (lmsport s)
                @ ''. Please check LMS is running and the correct port has been set.''))
          else Inr (ms ! 0), s2, [Discover ''ssdp:all'']))"
  by (simp add: discover_server_def action_defs Let_def)

lemma discover_server_raises:
  "discover env ''ssdp:all'' = Inl e \<Longrightarrow>
   discover_server env s = (Inl e, s, [Discover ''ssdp:all''])"
  by (simp add: discover_server_def action_defs Let_def)

lemma matches_as_filter:
  "filter (\<lambda>d. port d = p) (List.map_filter (\<lambda>x. x) rs)
     = List.map_filter (\<lambda>x. x) (filter (entry_matches p) rs)"
  by (induction rs) (auto simp: entry_matches_def split: option.splits)

lemma length_map_filter_matches:
  "length (List.map_filter (\<lambda>x. x) (filter (entry_matches p) rs))
     = length (filter (entry_matches p) rs)"
  by (induction rs) (auto simp: entry_matches_def split: option.splits)

lemma two_entries_count:
  assumes "i < j" "j < length rs" "P (rs ! i)" "P (rs ! j)"
  shows "2 \<le> length (filter P rs)"
proof -
  have sub: "{i, j} \<subseteq> {k. k < length rs \<and> P (rs ! k)}"
    using assms by auto
  have "card {i, j} \<le> card {k. k < length rs \<and> P (rs ! k)}"
    by (rule card_mono[OF _ sub]) simp
  moreover have "card {i, j} = 2" using assms(1) by simp
  ultimately show ?thesis by (simp add: length_filter_conv_card)
qed

lemma one_entry_filter:
  assumes "i < length rs" "P (rs ! i)"
    and "\<forall>j<length rs. j \<noteq> i \<longrightarrow> \<not> P (rs ! j)"
  shows "filter P rs = [rs ! i]"
proof -
  have split: "rs = take i rs @ rs ! i # drop (Suc i) rs"
    using assms(1) by (rule id_take_nth_drop)
  have "\<forall>x\<in>set (take i rs). \<not> P x"
  proof
    fix x assume "x \<in> set (take i rs)"
    then obtain k where "k < length (take i rs)" "take i rs ! k = x"
      by (auto simp: in_set_conv_nth)
    then have "k < i" "k < length rs" "rs ! k = x" using assms(1) by auto
    then show "\<not> P x" using assms(3) by auto
  qed
  then have before: "filter P (take i rs) = []" by (simp add: filter_empty_conv)
  have "\<forall>x\<in>set (drop (Suc i) rs). \<not> P x"
  proof
    fix x assume "x \<in> set (drop (Suc i) rs)"
    then obtain k where k: "k < length (drop (Suc i) rs)" "drop (Suc i) rs ! k = x"
      by (auto simp: in_set_conv_nth)
    then have "Suc i + k < length rs" "rs ! (Suc i + k) = x" by auto
    then show "\<not> P x" using assms(3) by auto
  qed
  then have after: "filter P (drop (Suc i) rs) = []" by (simp add: filter_empty_conv)
  have "filter P rs = filter P (take i rs @ rs ! i # drop (Suc i) rs)"
    using split by simp
  also have "\<dots> = [rs ! i]" using before after assms(2) by simp
  finally show ?thesis .
qed

text \<open>
  Claim C1. When the responses of discovery hold two or more entries (at two positions
  \<open>i < j\<close> of the response list) whose advertised port is the configured server port,
  \<open>__discover_server\<close> raises the error with the "Multiple servers found" message; it
  returns no address.
\<close>

theorem discover_server_multiple:
  assumes "discover env ''ssdp:all'' = Inr rs"
    and "i < j" and "j < length rs"
    and "rs ! i = Some d1" and "port d1 = lmsport s"
    and "rs ! j = Some d2" and "port d2 = lmsport s"
  shows "result_of (discover_server env s) =
           Inl (PySqueezeliteError (''Multiple servers found on port '' @ str_int (lmsport s)
                @ ''. Need to set server ip address when calling PySqueezelite.''))
         \<and> (\<forall>a. result_of (discover_server env s) \<noteq> Inr a)"
proof -
  have m: "entry_matches (lmsport s) (rs ! i)" "entry_matches (lmsport s) (rs ! j)"
    using assms by (simp_all add: entry_matches_def)
  have "2 \<le> length (filter (entry_matches (lmsport s)) rs)"
    by (rule two_entries_count[OF assms(2,3) m])
  then have "1 < length (map ip (filter (\<lambda>d. port d = lmsport s) (List.map_filter (\<lambda>x. x) rs)))"
    by (simp add: matches_as_filter length_map_filter_matches)
  then show ?thesis
    using discover_server_unfold[OF assms(1), of s] by (simp add: Let_def result_of_def)
qed

theorem discover_server_multiple_witness:
  "result_of (discover_server (example_env [Some lms_a, Some tv, None, Some lms_b]) kitchen) =
     Inl (PySqueezeliteError
       ''Multiple servers found on port 9000. Need to set server ip address when calling PySqueezelite.'')"
  using discover_server_multiple[of "example_env [Some lms_a, Some tv, None, Some lms_b]"
      "[Some lms_a, Some tv, None, Some lms_b]" 0 3 lms_a kitchen lms_b]
  by (simp add: example_env_def kitchen_def lms_a_def lms_b_def str_int_def)

text \<open>
  Claim C2. When no response of discovery advertises the configured server port,
  \<open>__discover_server\<close> raises the error with the "No servers found" message, and it has
  asked for discovery once: the trace holds one \<open>Discover\<close> call and nothing else.
\<close>

theorem discover_server_none:
  assumes "discover env ''ssdp:all'' = Inr rs"
    and "\<forall>d. Some d \<in> set rs \<longrightarrow> port d \<noteq> lmsport s"
  shows "discover_server env s =
           (Inl (PySqueezeliteError (''No servers found on port '' @ str_int (lmsport s)
                @ ''. Please check LMS is running and the correct port has been set.'')),
            s\<lparr>devices := Some (List.map_filter (\<lambda>x. x) rs), matches := Some []\<rparr>,
            [Discover ''ssdp:all''])"
proof -
  have "filter (entry_matches (lmsport s)) rs = []"
    using assms(2) by (auto simp: filter_empty_conv entry_matches_def split: option.splits)
  then have "filter (\<lambda>d. port d = lmsport s) (List.map_filter (\<lambda>x. x) rs) = []"
    by (simp add: matches_as_filter)
  then show ?thesis
    using discover_server_unfold[OF assms(1), of s] by (simp add: Let_def)
qed

theorem discover_server_none_witness:
  "discover_server (example_env [Some tv, None]) kitchen =
     (Inl (PySqueezeliteError
       ''No servers found on port 9000. Please check LMS is running and the correct port has been set.''),
      kitchen\<lparr>devices := Some [tv], matches := Some []\<rparr>, [Discover ''ssdp:all''])"
  using discover_server_none[of "example_env [Some tv, None]" "[Some tv, None]" kitchen]
  by (simp add: example_env_def kitchen_def tv_def str_int_def)

text \<open>
  Claim C3. When exactly one response of discovery (the one at position \<open>i\<close>) advertises
  the configured server port, \<open>__discover_server\<close> returns the address of that response,
  unchanged, and raises nothing.
\<close>

theorem discover_server_unique:
  assumes "discover env ''ssdp:all'' = Inr rs"
    and "i < length rs" and "rs ! i = Some d" and "port d = lmsport s"
    and "\<forall>j<length rs. j \<noteq> i \<longrightarrow> (\<forall>d'. rs ! j = Some d' \<longrightarrow> port d' \<noteq> lmsport s)"
  shows "result_of (discover_server env s) = Inr (ip d)"
proof -
  have others: "\<forall>j<length rs. j \<noteq> i \<longrightarrow> \<not> entry_matches (lmsport s) (rs ! j)"
    using assms(5) by (auto simp: entry_matches_def split: option.splits)
  have this_one: "entry_matches (lmsport s) (rs ! i)"
    using assms(3,4) by (simp add: entry_matches_def)
  have "filter (entry_matches (lmsport s)) rs = [rs ! i]"
    by (rule one_entry_filter[OF assms(2) this_one others])
  then have "filter (\<lambda>d. port d = lmsport s) (List.map_filter (\<lambda>x. x) rs) = [d]"
    using assms(3) by (simp add: matches_as_filter)
  then show ?thesis
    using discover_server_unfold[OF assms(1), of s] by (simp add: Let_def result_of_def)
qed

theorem discover_server_unique_witness:
  "result_of (discover_server (example_env [Some tv, Some lms_a, None]) kitchen) =
     Inr ''192.168.1.50''"
  using discover_server_unique[of "example_env [Some tv, Some lms_a, None]"
      "[Some tv, Some lms_a, None]" 1 lms_a kitchen]
  by (simp add: example_env_def kitchen_def tv_def lms_a_def nth_Cons' less_Suc_eq)

subsection \<open>Construction\<close>

text \<open>
  Claim C4. When the binary path names no existing file, \<open>__init__\<close> raises its error
  (the "Can't find squeezelite" message) and the only thing it has asked the outside
  world is whether the file exists: no discovery, no connection, no process. When the
  file exists, \<open>__init__\<close> raises nothing and the instance holds the seven parameters.
\<close>

theorem init_checks_path:
  "(\<not> isfile env p \<longrightarrow>
      init env p plname m srv a lp tp =
        (Inl (PySqueezeliteError (''Can't find squeezelite at '' @ p)), [IsFile p]))
   \<and> (isfile env p \<longrightarrow>
      init env p plname m srv a lp tp =
        (Inr \<lparr>path = p, playername = plname, mac = m, server = srv, args = a,
              lmsport = lp, telnetport = tp,
              devices = None, matches = None, sc = None, player = None\<rparr>, [IsFile p]))"
  by (simp add: init_def Let_def)

theorem init_checks_path_witness:
  "init (example_env []) ''/opt/squeezelite'' (Some ''Kitchen'') (Some ''AA:BB:CC:DD:EE:FF'')
        (Some ''10.0.0.5'') None 9000 9090
     = (Inl (PySqueezeliteError ''Can't find squeezelite at /opt/squeezelite''),
        [IsFile ''/opt/squeezelite''])
   \<and> init (example_env []) ''/usr/bin/squeezelite'' (Some ''Kitchen'')
        (Some ''AA:BB:CC:DD:EE:FF'') (Some ''10.0.0.5'') (Some ''--foo bar'') 9000 9090
     = (Inr kitchen, [IsFile ''/usr/bin/squeezelite''])"
  using init_checks_path[of "example_env []" "''/opt/squeezelite''" "Some ''Kitchen''"
      "Some ''AA:BB:CC:DD:EE:FF''" "Some ''10.0.0.5''" None 9000 9090]
    init_checks_path[of "example_env []" "''/usr/bin/squeezelite''" "Some ''Kitchen''"
      "Some ''AA:BB:CC:DD:EE:FF''" "Some ''10.0.0.5''" "Some ''--foo bar''" 9000 9090]
  by (simp add: example_env_def kitchen_def)

subsection \<open>Launching\<close>

text \<open>
  Claim C5, evaluated on the code. For name \<open>Kitchen\<close>, hardware address
  \<open>AA:BB:CC:DD:EE:FF\<close>, server \<open>10.0.0.5\<close> and extra arguments \<open>--foo bar\<close>, the command
  that \<open>start\<close> hands to \<open>subprocess.call\<close> is the binary path, \<open>-z\<close>, then \<open>-n Kitchen\<close>,
  \<open>-m AA:BB:CC:DD:EE:FF\<close>, \<open>-s 10.0.0.5\<close>, and the extra arguments as the single token
  \<open>--foo bar\<close>: neither \<open>--foo\<close> nor \<open>bar\<close> is a token of its own.
\<close>

theorem start_extra_args_one_token:
  "command_of kitchen =
     [''/usr/bin/squeezelite'', ''-z'', ''-n'', ''Kitchen'', ''-m'', ''AA:BB:CC:DD:EE:FF'',
      ''-s'', ''10.0.0.5'', ''--foo bar'']
   \<and> trace_of (start (example_env []) kitchen) =
       [ServerConnect (Some ''10.0.0.5'') 9090, GetPlayer (Some ''AA:BB:CC:DD:EE:FF''),
        Call (command_of kitchen)]
   \<and> ''--foo'' \<notin> set (command_of kitchen) \<and> ''bar'' \<notin> set (command_of kitchen)"
  by (simp add: command_of_def kitchen_def start_def connect_def subprocess_call_def
      example_env_def action_defs)

subsection \<open>Killing\<close>

text \<open>
  Claim C7. When the lookup \<open>pidof path\<close> finds no process (it ends with a non-zero
  exit status), \<open>kill\<close> raises the \<open>CalledProcessError\<close> of that lookup to its caller,
  and it has run no other command: no \<open>kill -9\<close> is sent.
\<close>

theorem kill_no_process:
  assumes "run env [''pidof'', path s] = Inr (rc, out)" and "rc \<noteq> 0"
  shows "kill env s =
           (Inl (CalledProcessError rc [''pidof'', path s]), s,
            [CheckOutput [''pidof'', path s]])
         \<and> (\<forall>cmd. Call cmd \<notin> set (trace_of (kill env s)))"
  using assms by (simp add: kill_def check_output_def action_defs)

theorem kill_no_process_witness:
  "run (example_env []) [''pidof'', path kitchen] = Inr (1, [])
   \<and> kill (example_env []) kitchen =
       (Inl (CalledProcessError 1 [''pidof'', ''/usr/bin/squeezelite'']), kitchen,
        [CheckOutput [''pidof'', ''/usr/bin/squeezelite'']])"
  using kill_no_process[of "example_env []" kitchen 1 "[]"]
  by (simp add: example_env_def kitchen_def)

text \<open>
  When the lookup succeeds, every process id of its output gets its \<open>kill -9\<close>, in order.
\<close>

lemma kill_each_trace:
  "(\<forall>pid\<in>set pids. \<exists>r. run env [''kill'', ''-9'', pid] = Inr r) \<Longrightarrow>
   kill_each env pids s = (Inr VNone, s, map (\<lambda>pid. Call [''kill'', ''-9'', pid]) pids)"
  by (induction pids) (auto simp: subprocess_call_def action_defs)

lemma kill_two_processes:
  "kill (example_env []\<lparr>run := (\<lambda>cmd. if cmd = [''pidof'', ''/usr/bin/squeezelite'']
                                      then Inr (0, ''812 640'' @ [CHR 0x0A]) else Inr (0, []))\<rparr>)
        kitchen =
     (Inr VNone, kitchen,
      [CheckOutput [''pidof'', ''/usr/bin/squeezelite''],
       Call [''kill'', ''-9'', ''812''], Call [''kill'', ''-9'', ''640'']])"
  by (simp add: kill_def check_output_def subprocess_call_def action_defs example_env_def
      kitchen_def strip_def is_space_def)

subsection \<open>Queries\<close>

text \<open>
  Claim C8. With a player handle set (\<open>player s = Some p\<close>), \<open>get_player_info\<close> returns
  \<open>None\<close> and raises nothing for a name that is no attribute of the player, and for a
  name that is one it returns what invoking that attribute returns (or raises).
\<close>

theorem get_player_info_result:
  assumes "player s = Some p"
  shows "(call_attr p info = None \<longrightarrow> get_player_info info s = (Inr VNone, s, []))
       \<and> (\<forall>r. call_attr p info = Some r \<longrightarrow>
             get_player_info info s = (r, s, [PlayerCall info]))"
  using assms by (simp add: get_player_info_def self_player_def action_defs)

theorem get_player_info_result_witness:
  "get_player_info ''get_volume'' (kitchen\<lparr>player := Some example_player\<rparr>)
     = (Inr VNone, kitchen\<lparr>player := Some example_player\<rparr>, [])
   \<and> get_player_info ''get_track_title'' (kitchen\<lparr>player := Some example_player\<rparr>)
     = (Inr (VStr ''Song''), kitchen\<lparr>player := Some example_player\<rparr>,
        [PlayerCall ''get_track_title''])"
  using get_player_info_result[of "kitchen\<lparr>player := Some example_player\<rparr>"
      example_player "''get_volume''"]
    get_player_info_result[of "kitchen\<lparr>player := Some example_player\<rparr>"
      example_player "''get_track_title''"]
  by (simp add: example_player_def)

text \<open>
  Claim C10. \<open>get_player_info\<close> leaves the instance as it found it, the server
  connection and the player handle included, whatever the name and whether or not a
  player handle is set; the only call it can make is the one to the player's attribute,
  never one that opens a connection or resolves a player.
\<close>

theorem get_player_info_frame:
  "state_of (get_player_info info s) = s
   \<and> set (trace_of (get_player_info info s)) \<subseteq> {PlayerCall info}
   \<and> (\<forall>h p. ServerConnect h p \<notin> set (trace_of (get_player_info info s)))
   \<and> (\<forall>m. GetPlayer m \<notin> set (trace_of (get_player_info info s)))"
  by (auto simp: get_player_info_def self_player_def action_defs split: option.splits)

subsection \<open>External calls and the instance, method by method\<close>

lemma connect_trace:
  "set (trace_of (connect env h p s)) \<subseteq> {ServerConnect h p, GetPlayer (mac s)}"
  by (auto simp: connect_def action_defs split: sum.splits)

lemma connect_state:
  "state_of (connect env h p s) = s\<lparr>sc := Some \<lparr>sv_hostname = h, sv_port = p\<rparr>\<rparr>
   \<or> (\<exists>q. state_of (connect env h p s) =
          s\<lparr>sc := Some \<lparr>sv_hostname = h, sv_port = p\<rparr>, player := Some q\<rparr>)"
  by (auto simp: connect_def action_defs split: sum.splits)

lemma subprocess_call_trace: "trace_of (subprocess_call env cmd s) = [Call cmd]"
  by (auto simp: subprocess_call_def action_defs split: sum.splits)

lemma subprocess_call_state: "state_of (subprocess_call env cmd s) = s"
  by (auto simp: subprocess_call_def action_defs split: sum.splits)

lemma discover_server_trace: "trace_of (discover_server env s) = [Discover ''ssdp:all'']"
  by (auto simp: discover_server_def action_defs Let_def split: sum.splits)

lemma discover_server_state:
  "\<exists>ds ms. state_of (discover_server env s) = s \<or>
       state_of (discover_server env s) = s\<lparr>devices := ds, matches := ms\<rparr>"
  by (auto simp: discover_server_def action_defs Let_def split: sum.splits)

text \<open>The three components of a sequence of two actions.\<close>

lemma trace_of_bind:
  "trace_of (bind_a m f s) =
     (case result_of (m s) of
        Inl e \<Rightarrow> trace_of (m s)
      | Inr x \<Rightarrow> trace_of (m s) @ trace_of (f x (state_of (m s))))"
  by (auto simp: action_defs split: sum.splits prod.splits)

lemma state_of_bind:
  "state_of (bind_a m f s) =
     (case result_of (m s) of
        Inl e \<Rightarrow> state_of (m s)
      | Inr x \<Rightarrow> state_of (f x (state_of (m s))))"
  by (auto simp: action_defs split: sum.splits prod.splits)

lemma result_of_bind:
  "result_of (bind_a m f s) =
     (case result_of (m s) of
        Inl e \<Rightarrow> Inl e
      | Inr x \<Rightarrow> result_of (f x (state_of (m s))))"
  by (auto simp: action_defs split: sum.splits prod.splits)

lemma start_static_trace:
  assumes "truthy (server s)"
  shows "set (trace_of (start env s)) \<subseteq>
           {ServerConnect (server s) (telnetport s), GetPlayer (mac s)} \<union> range Call"
  using assms
  by (auto simp: start_def connect_def subprocess_call_def action_defs split: sum.splits prod.splits)

lemma start_absent_trace:
  assumes "\<not> truthy (server s)"
  shows "\<exists>t. trace_of (start env s) = Discover ''ssdp:all'' # t \<and> (\<forall>q. Discover q \<notin> set t)"
  using assms
  by (auto simp: start_def discover_server_def connect_def subprocess_call_def action_defs Let_def split: sum.splits prod.splits)

subsection \<open>When \<open>start\<close> discovers\<close>

text \<open>
  Claim C6. A call of \<open>start\<close> on an instance whose server address is set (not \<open>None\<close>
  and not empty) makes no call of \<open>discover\<close>; on an instance whose server address is
  absent it makes exactly one.
\<close>

theorem start_discover_calls:
  "discover_calls (trace_of (start env s)) = (if truthy (server s) then 0 else 1)"
proof (cases "truthy (server s)")
  case True
  have "\<forall>e\<in>set (trace_of (start env s)). \<not> is_discover e"
    using start_static_trace[OF True, of env] by auto
  then have "filter is_discover (trace_of (start env s)) = []"
    by (simp add: filter_empty_conv)
  then show ?thesis using True by (simp add: discover_calls_def)
next
  case False
  obtain t where t: "trace_of (start env s) = Discover ''ssdp:all'' # t"
      "\<forall>q. Discover q \<notin> set t"
    using start_absent_trace[OF False, of env] by blast
  have "\<forall>e\<in>set t. \<not> is_discover e"
  proof
    fix e assume e: "e \<in> set t"
    show "\<not> is_discover e"
    proof (cases e)
      case (Discover q)
      then show ?thesis using e t(2) by blast
    qed simp_all
  qed
  then have "filter is_discover t = []" by (simp add: filter_empty_conv)
  then show ?thesis using False t(1) by (simp add: discover_calls_def)
qed

theorem start_discover_calls_witness:
  "discover_calls (trace_of (start (example_env [Some lms_a]) kitchen)) = 0
   \<and> discover_calls (trace_of (start (example_env [Some lms_a]) (kitchen\<lparr>server := None\<rparr>))) = 1
   \<and> discover_calls (trace_of (start (example_env [Some lms_a]) (kitchen\<lparr>server := Some []\<rparr>))) = 1"
  using start_discover_calls[of "example_env [Some lms_a]" kitchen]
    start_discover_calls[of "example_env [Some lms_a]" "kitchen\<lparr>server := None\<rparr>"]
    start_discover_calls[of "example_env [Some lms_a]" "kitchen\<lparr>server := Some []\<rparr>"]
  by (simp add: kitchen_def)


subsection \<open>The configuration under the operations\<close>

lemma kill_each_state: "state_of (kill_each env pids s) = s"
proof (induction pids)
  case Nil
  show ?case by (simp add: action_defs)
next
  case (Cons pid pids)
  show ?case
    using Cons.IH subprocess_call_state[of env "[''kill'', ''-9'', pid]" s]
    by (simp add: state_of_bind split: sum.splits)
qed

lemma get_state: "state_of (get f s) = s"
  by (simp add: action_defs)

lemma check_output_state: "state_of (check_output env cmd s) = s"
  by (auto simp: check_output_def action_defs split: sum.splits)

lemma kill_state: "state_of (kill env s) = s"
  by (simp add: kill_def state_of_bind get_state check_output_state kill_each_state
      split: sum.splits)

lemma player_command_state: "state_of (player_command m s) = s"
  by (auto simp: player_command_def self_player_def action_defs split: option.splits sum.splits)

lemma get_player_info_state: "state_of (get_player_info info s) = s"
  by (auto simp: get_player_info_def self_player_def action_defs split: option.splits)

lemma connect_config: "config_of (state_of (connect env h p s)) = config_of s"
  using connect_state[of env h p s] by (auto simp: config_of_def)

lemma discover_server_config: "config_of (state_of (discover_server env s)) = config_of s"
  by (auto simp: discover_server_def action_defs Let_def config_of_def split: sum.splits)

lemma start_static_config:
  "truthy (server s) \<Longrightarrow> config_of (state_of (start env s)) = config_of s"
  by (auto simp: start_def connect_def subprocess_call_def action_defs config_of_def
      split: sum.splits prod.splits)

lemma start_absent_state:
  "\<not> truthy (server s) \<Longrightarrow>
   config_of (state_of (start env s)) =
     config_of (case result_of (discover_server env s) of
                  Inl e \<Rightarrow> s
                | Inr a \<Rightarrow> s\<lparr>server := Some a\<rparr>)"
  by (auto simp: start_def discover_server_def connect_def subprocess_call_def action_defs
      Let_def config_of_def split: sum.splits prod.splits)

lemma bind_ret_state: "state_of (bind_a m (\<lambda>x. ret (g x)) s) = state_of (m s)"
  by (auto simp: action_defs split: sum.splits prod.splits)

lemma exec_config:
  "op \<noteq> Start \<Longrightarrow> config_of (state_of (exec env op s)) = config_of s"
  by (cases op)
    (simp_all add: kill_state bind_ret_state connect_config discover_server_config
      get_player_info_state player_command_state
      play_pause_def stop_def next_track_def prev_track_def
      track_title_def track_artist_def track_album_def track_duration_def track_time_def)


text \<open>
  Claim C9 as stated fails: \<open>start\<close> on an instance without a server address stores the
  address that discovery found in the attribute \<open>server\<close>.
\<close>

theorem start_sets_server_counterexample:
  "server (kitchen\<lparr>server := None\<rparr>) = None
   \<and> server (state_of (exec (example_env [Some lms_a]) Start (kitchen\<lparr>server := None\<rparr>)))
       = Some ''192.168.1.50''"
  by (simp add: start_def discover_server_def connect_def subprocess_call_def action_defs
      Let_def example_env_def kitchen_def lms_a_def List.map_filter_simps)


text \<open>
  Claim C9, amended. No operation changes the binary path, the display name, the
  hardware address, the extra arguments, the server port or the control port. The
  server address is unchanged by every operation but \<open>start\<close>, and by \<open>start\<close> when it is
  set; \<open>start\<close> on an instance whose server address is absent leaves in it the address
  \<open>__discover_server\<close> returns, and leaves it as it was when \<open>__discover_server\<close> raises.
\<close>

theorem exec_config_frame:
  "path (state_of (exec env op s)) = path s
   \<and> playername (state_of (exec env op s)) = playername s
   \<and> mac (state_of (exec env op s)) = mac s
   \<and> args (state_of (exec env op s)) = args s
   \<and> lmsport (state_of (exec env op s)) = lmsport s
   \<and> telnetport (state_of (exec env op s)) = telnetport s
   \<and> (op \<noteq> Start \<or> truthy (server s) \<longrightarrow> server (state_of (exec env op s)) = server s)
   \<and> (op = Start \<and> \<not> truthy (server s) \<longrightarrow>
        server (state_of (exec env op s)) =
          (case result_of (discover_server env s) of
             Inl e \<Rightarrow> server s
           | Inr a \<Rightarrow> Some a))"
proof (cases "op = Start")
  case False
  then show ?thesis using exec_config[OF False, of env s] by (simp add: config_of_def)
next
  case True
  show ?thesis
  proof (cases "truthy (server s)")
    case t: True
    show ?thesis using True t start_static_config[OF t, of env] by (simp add: config_of_def)
  next
    case f: False
    show ?thesis using True f start_absent_state[OF f, of env]
      by (simp add: config_of_def split: sum.splits)
  qed
qed

theorem exec_config_frame_witness:
  "server (state_of (exec (example_env [Some lms_a]) Start (kitchen\<lparr>server := None\<rparr>)))
     = Some ''192.168.1.50''
   \<and> args (state_of (exec (example_env [Some lms_a]) Start (kitchen\<lparr>server := None\<rparr>)))
     = Some ''--foo bar''
   \<and> server (state_of (exec (example_env [Some lms_a]) Start kitchen)) = Some ''10.0.0.5''
   \<and> server (state_of (exec (example_env [Some lms_a]) (Connect (Some ''10.0.0.9'') 9090) kitchen))
     = Some ''10.0.0.5''"
  using exec_config_frame[of "example_env [Some lms_a]" Start "kitchen\<lparr>server := None\<rparr>"]
    exec_config_frame[of "example_env [Some lms_a]" Start kitchen]
    exec_config_frame[of "example_env [Some lms_a]" "Connect (Some ''10.0.0.9'') 9090" kitchen]
  by (simp add: discover_server_def action_defs Let_def example_env_def kitchen_def lms_a_def)

end
